theory Spec2Isabelle
  imports Main
begin

section \<open>Rich-text editor: the DOM forest handled by the paste sanitiser\<close>

text \<open>
  A string of the DOM or of the clipboard is a list of UTF-16 code units, each a natural
  number. \<open>ascii\<close> writes a string of this kind with the characters of a literal.
\<close>

type_synonym ustring = "nat list"

definition ascii :: "string \<Rightarrow> ustring" where
  "ascii s = map of_char s"

text \<open>
  \<^verbatim>\<open>handlePaste\<close> (RichTextEditor.tsx) assigns the clipboard markup to
  \<^verbatim>\<open>tempDiv.innerHTML\<close> and then works on the element objects of the
  resulting tree. The tree is modelled as a forest of nodes (the children of
  \<^verbatim>\<open>tempDiv\<close>). An element carries the identity of its DOM object (a number),
  its namespace and local name, its attribute list in order, and its children. Two loops of
  the source run over a static \<^verbatim>\<open>NodeList\<close> while they mutate the tree, so
  object identity is part of the model.
\<close>

datatype namespace = HTML | SVG | MathML

type_synonym qname = "namespace \<times> ustring"

type_synonym attrs = "(ustring \<times> ustring) list"

datatype node =
    Element nat qname attrs "node list"
  | Text ustring
  | Comment ustring






text \<open>
  \<^verbatim>\<open>el.tagName\<close>: the local name of the element (the parser gives no prefix),
  with the letters a to z in upper case when the element is an HTML element, and as it is
  otherwise.
\<close>

definition ascii_upper_unit :: "nat \<Rightarrow> nat" where
  "ascii_upper_unit u = (if 97 \<le> u \<and> u \<le> 122 then u - 32 else u)"

definition tagName :: "qname \<Rightarrow> ustring" where
  "tagName q = (if fst q = HTML then map ascii_upper_unit (snd q) else snd q)"



definition allowedTags :: "ustring list" where
  "allowedTags =
     map ascii
       [''p'', ''br'', ''b'', ''strong'', ''i'', ''em'', ''u'', ''a'', ''ul'', ''ol'', ''li'',
        ''h1'', ''h2'', ''h3'', ''h4'', ''h5'', ''h6'', ''blockquote'', ''pre'', ''code'']"

text \<open>
  \<^verbatim>\<open>allowedTags.includes(el.tagName.toLowerCase())\<close>.
  \<^verbatim>\<open>String.prototype.toLowerCase\<close>, the lower-casing of Unicode, is a parameter
  of the sanitiser.
\<close>

definition allowed :: "(ustring \<Rightarrow> ustring) \<Rightarrow> qname \<Rightarrow> bool" where
  "allowed toLowerCase q = (toLowerCase (tagName q) \<in> set allowedTags)"






subsection \<open>The two loops as recursive functions on the forest\<close>



text \<open>Removal and unwrapping of a set of element objects at once (used in the proofs).\<close>

fun strip_ids :: "nat set \<Rightarrow> node list \<Rightarrow> node list" where
  "strip_ids S [] = []"
| "strip_ids S (Element j t a ks # ns) =
     (if j \<in> S then strip_ids S ns else Element j t a (strip_ids S ks) # strip_ids S ns)"
| "strip_ids S (Text s # ns) = Text s # strip_ids S ns"
| "strip_ids S (Comment s # ns) = Comment s # strip_ids S ns"


section \<open>Rich-text editor: the paste handler and the link dialog\<close>

text \<open>
  \<^verbatim>\<open>\s\<close> and \<^verbatim>\<open>trim()\<close> treat the following characters (of
  the codes 0 to 255) as white space.
\<close>

definition is_space :: "char \<Rightarrow> bool" where
  "is_space c =
     (c \<in> set [CHR 0x09, CHR 0x0A, CHR 0x0B, CHR 0x0C, CHR 0x0D, CHR 0x20, CHR 0xA0])"

definition trim :: "string \<Rightarrow> string" where
  "trim s = rev (dropWhile is_space (rev (dropWhile is_space s)))"

definition startsWith :: "string \<Rightarrow> string \<Rightarrow> bool" where
  "startsWith s p = (take (length p) s = p)"

text \<open>
  \<^verbatim>\<open>window.getSelection()\<close>: \<open>None\<close> is \<^verbatim>\<open>null\<close>; otherwise the
  selection's \<^verbatim>\<open>toString()\<close>, \<^verbatim>\<open>rangeCount\<close> and
  \<^verbatim>\<open>isCollapsed\<close>.
\<close>

record selection =
  sel_toString :: string
  rangeCount :: nat
  isCollapsed :: bool


text \<open>What a handler of the editor does to the page, in order.\<close>

record anchor =
  href :: string
  target :: string
  rel :: string
  textContent :: string
  className :: string

datatype editor_effect =
    Alert string
  | Focus
  | InsertFragment ustring
  | ExecInsertText ustring
  | InsertNode anchor
  | ExecInsertHTML string
  | UpdateContent

text \<open>Values that a handler of the editor throws.\<close>

datatype js_error = TypeError | Error string | InvalidNodeTypeError



text \<open>
  \<^verbatim>\<open>handleAddLink\<close> (lines 159-219). \<^verbatim>\<open>new URL(linkUrl)\<close> is a
  parameter: it returns the parsed URL or throws. The \<^verbatim>\<open>try\<close> block is
  \<open>validate_link\<close>; its \<^verbatim>\<open>catch\<close> takes every thrown value.
\<close>

record url =
  protocol :: string

record link_state =
  showLinkInput :: bool
  linkUrl :: string
  linkText :: string

definition validate_link :: "(string \<Rightarrow> js_error + url) \<Rightarrow> string \<Rightarrow> js_error + unit" where
  "validate_link newURL s =
     (case newURL s of
        Inl e \<Rightarrow> Inl e
      | Inr u \<Rightarrow>
          if \<not> startsWith (protocol u) ''http'' then Inl (Error ''Invalid protocol'')
          else Inr ())"

definition link_markup :: "string \<Rightarrow> string \<Rightarrow> string" where
  "link_markup u displayText =
     ''<a href='' @ [CHR 0x22] @ u @ [CHR 0x22] @ '' target='' @ [CHR 0x22] @ ''_blank''
       @ [CHR 0x22] @ '' rel='' @ [CHR 0x22] @ ''noopener noreferrer'' @ [CHR 0x22]
       @ '' class='' @ [CHR 0x22] @ ''rich-text-link'' @ [CHR 0x22] @ ''>'' @ displayText
       @ ''</a>&nbsp;''"

definition handleAddLink ::
  "(string \<Rightarrow> js_error + url) \<Rightarrow> bool \<Rightarrow> selection option \<Rightarrow> link_state
     \<Rightarrow> js_error + (link_state \<times> editor_effect list)" where
  "handleAddLink newURL editor_present sel st =
     (if trim (linkUrl st) = [] then Inr (st, [Alert ''Please enter a URL''])
      else
        case validate_link newURL (linkUrl st) of
          Inl e \<Rightarrow>
            Inr (st, [Alert ''Please enter a valid URL starting with http:// or https://''])
        | Inr _ \<Rightarrow>
            if \<not> editor_present then Inr (st, [])
            else
              case sel of
                None \<Rightarrow> Inr (st, [Focus])
              | Some s \<Rightarrow>
                  let selectedText = sel_toString s;
                      displayText =
                        (if selectedText \<noteq> [] then selectedText
                         else if linkText st \<noteq> [] then linkText st
                         else linkUrl st);
                      link = \<lparr>href = linkUrl st, target = ''_blank'',
                              rel = ''noopener noreferrer'', textContent = displayText,
                              className = ''rich-text-link''\<rparr>;
                      ins =
                        (if rangeCount s > 0 \<and> \<not> isCollapsed s then InsertNode link
                         else ExecInsertHTML (link_markup (linkUrl st) displayText))
                  in Inr (st\<lparr>showLinkInput := False, linkUrl := [], linkText := []\<rparr>,
                          [Focus, ins, UpdateContent]))"

text \<open>The link insertions among the effects of a handler.\<close>

fun is_link_insertion :: "editor_effect \<Rightarrow> bool" where
  "is_link_insertion (InsertNode a) = True"
| "is_link_insertion (ExecInsertHTML h) = True"
| "is_link_insertion e = False"

section \<open>Requests, responses and thrown values\<close>

text \<open>
  A handler hands a request to the shared HTTP client and awaits the answer. The answer is
  an input of the model: the network is a function from the request to either the value
  that the awaited promise throws or the response body. The handler's result is the page
  state after it has completed and the effects it has issued, in order.
\<close>

datatype http_method = GET | POST | PUT

text \<open>What a \<^verbatim>\<open>catch\<close> block can tell about the value it caught.\<close>

datatype thrown =
    AxiosResponseError "string option"
      \<comment> \<open>the service answered with an error status; \<^verbatim>\<open>response.data.message\<close>
          when it is a string\<close>
  | AxiosNetworkError string
      \<comment> \<open>an Axios error without a response (it has a \<^verbatim>\<open>request\<close>), with its
          \<^verbatim>\<open>message\<close>\<close>
  | OtherError string
      \<comment> \<open>another \<^verbatim>\<open>Error\<close> instance, with its \<^verbatim>\<open>message\<close>\<close>
  | NonError
      \<comment> \<open>any other thrown value\<close>

text \<open>\<^verbatim>\<open>m || fallback\<close> for an optional string: absent and empty are falsy.\<close>

definition or_else :: "string option \<Rightarrow> string \<Rightarrow> string" where
  "or_else m fallback = (case m of None \<Rightarrow> fallback | Some s \<Rightarrow> if s = [] then fallback else s)"

section \<open>Settings form\<close>

text \<open>
  \<^verbatim>\<open>BasicSettingsData\<close> (page.tsx, lines 40-58). The optional numeric
  \<^verbatim>\<open>id\<close> is the field \<open>id_num\<close> (\<open>id\<close> is the identity function of HOL);
  identifiers are integers.
\<close>

record BasicSettingsData =
  id_num :: "int option"
  site_name :: string
  tagline :: string
  logo_url :: string
  favicon_url :: string
  contact_email :: string
  contact_phone :: string
  contact_address :: string
  facebook_url :: string
  x_url :: string
  instagram_url :: string
  meta_description :: string
  meta_keywords :: string
  meta_author :: string
  google_analytics_id :: string
  copyright_text :: string
  maintenance_mode :: bool

text \<open>The initial value of the \<^verbatim>\<open>settings\<close> state (lines 104-121).\<close>

definition initial_settings :: BasicSettingsData where
  "initial_settings =
     \<lparr>id_num = None, site_name = [], tagline = [], logo_url = [], favicon_url = [],
      contact_email = [], contact_phone = [], contact_address = [], facebook_url = [],
      x_url = [], instagram_url = [], meta_description = [], meta_keywords = [],
      meta_author = [], google_analytics_id = [], copyright_text = [],
      maintenance_mode = False\<rparr>"

record File =
  file_type :: string
  file_size :: nat

datatype UploadType = Logo | Favicon

text \<open>What the settings page sends: the record itself, or a one-field multipart form.\<close>

datatype settings_body = JsonBody BasicSettingsData | FormData string File

record 'b request =
  req_method :: http_method
  req_url :: string
  req_body :: 'b

text \<open>The envelope \<^verbatim>\<open>ApiResponse<T>\<close> (lines 60-64).\<close>

record 'a ApiResponse =
  success :: bool
  message :: string
  data :: "'a option"

datatype timer_callback = ClearSuccess | RouterPush string

datatype 'r effect = HttpRequest 'r | SetTimeout timer_callback nat

fun requests :: "'r effect list \<Rightarrow> 'r list" where
  "requests [] = []"
| "requests (HttpRequest r # es) = r # requests es"
| "requests (SetTimeout c n # es) = requests es"

record settings_page =
  settings :: BasicSettingsData
  saving :: bool
  error :: string
  success_msg :: string
  uploading_logo :: bool
  uploading_favicon :: bool

text \<open>
  The template literal \<^verbatim>\<open>${settings.id}\<close>: an integer identifier is written in
  decimal (as JavaScript writes every integer below \<open>10\<^sup>2\<^sup>1\<close>).
\<close>

fun digits :: "nat \<Rightarrow> string" where
  "digits n = (if n < 10 then [''0123456789'' ! n] else digits (n div 10) @ [''0123456789'' ! (n mod 10)])"

declare digits.simps [simp del]

definition number_toString :: "int \<Rightarrow> string" where
  "number_toString i = (if i < 0 then ''-'' @ digits (nat (- i)) else digits (nat i))"

text \<open>
  The condition \<^verbatim>\<open>settings.id\<close> of the conditional expression (line 285): an
  absent identifier and the number 0 are falsy.
\<close>

definition truthy_id :: "int option \<Rightarrow> bool" where
  "truthy_id i = (case i of None \<Rightarrow> False | Some n \<Rightarrow> n \<noteq> 0)"

text \<open>The request of \<^verbatim>\<open>handleSubmit\<close> (lines 285-293).\<close>

definition submit_request :: "BasicSettingsData \<Rightarrow> settings_body request" where
  "submit_request s =
     (if truthy_id (id_num s) then
        \<lparr>req_method = PUT, req_url = ''/basic-settings/'' @ number_toString (the (id_num s)),
         req_body = JsonBody s\<rparr>
      else \<lparr>req_method = POST, req_url = ''/basic-settings'', req_body = JsonBody s\<rparr>)"

text \<open>The \<^verbatim>\<open>catch\<close> block of \<^verbatim>\<open>handleSubmit\<close> (lines 302-311).\<close>

fun submit_error :: "thrown \<Rightarrow> string" where
  "submit_error (AxiosResponseError m) = or_else m ''Failed to save settings''"
| "submit_error (AxiosNetworkError msg) = msg"
| "submit_error (OtherError msg) = msg"
| "submit_error NonError = ''Failed to save settings''"

text \<open>\<^verbatim>\<open>handleSubmit\<close> (lines 278-315).\<close>

definition handleSubmit ::
  "(settings_body request \<Rightarrow> thrown + BasicSettingsData ApiResponse) \<Rightarrow> settings_page
     \<Rightarrow> settings_page \<times> settings_body request effect list" where
  "handleSubmit net st =
     (let st1 = st\<lparr>saving := True, error := [], success_msg := []\<rparr>;
          req = submit_request (settings st)
      in case net req of
           Inr response \<Rightarrow>
             if success response then
               (let st2 = st1\<lparr>success_msg := ''Settings saved successfully!''\<rparr>;
                    st3 = (if \<not> truthy_id (id_num (settings st)) \<and> data response \<noteq> None
                           then st2\<lparr>settings := the (data response)\<rparr> else st2)
                in (st3\<lparr>saving := False\<rparr>, [HttpRequest req, SetTimeout ClearSuccess 3000]))
             else (st1\<lparr>saving := False\<rparr>, [HttpRequest req])
         | Inl err \<Rightarrow>
             (st1\<lparr>error := submit_error err, saving := False\<rparr>, [HttpRequest req]))"

text \<open>\<^verbatim>\<open>handleFileUpload\<close> (lines 196-262).\<close>

definition validTypes :: "string list" where
  "validTypes =
     [''image/jpeg'', ''image/jpg'', ''image/png'', ''image/gif'', ''image/webp'',
      ''image/svg+xml'', ''image/x-icon'']"

text \<open>\<^verbatim>\<open>t.split("/")[1]\<close> for a string with one slash, and \<^verbatim>\<open>join(", ")\<close>.\<close>

definition after_slash :: "string \<Rightarrow> string" where
  "after_slash t = drop 1 (dropWhile (\<lambda>c. c \<noteq> CHR ''/'') t)"

fun join :: "string \<Rightarrow> string list \<Rightarrow> string" where
  "join sep [] = []"
| "join sep [x] = x"
| "join sep (x # y # ys) = x @ sep @ join sep (y # ys)"

definition type_name :: "UploadType \<Rightarrow> string" where
  "type_name t = (case t of Logo \<Rightarrow> ''logo'' | Favicon \<Rightarrow> ''favicon'')"

definition maxSize :: "UploadType \<Rightarrow> nat" where
  "maxSize t = (if t = Logo then 2 * 1024 * 1024 else 1 * 1024 * 1024)"

definition set_url :: "UploadType \<Rightarrow> string \<Rightarrow> BasicSettingsData \<Rightarrow> BasicSettingsData" where
  "set_url t v s = (case t of Logo \<Rightarrow> s\<lparr>logo_url := v\<rparr> | Favicon \<Rightarrow> s\<lparr>favicon_url := v\<rparr>)"

definition set_uploading :: "UploadType \<Rightarrow> bool \<Rightarrow> settings_page \<Rightarrow> settings_page" where
  "set_uploading t b st =
     (case t of Logo \<Rightarrow> st\<lparr>uploading_logo := b\<rparr> | Favicon \<Rightarrow> st\<lparr>uploading_favicon := b\<rparr>)"

fun upload_error :: "UploadType \<Rightarrow> thrown \<Rightarrow> string" where
  "upload_error t (AxiosResponseError m) = or_else m (''Failed to upload '' @ type_name t)"
| "upload_error t (AxiosNetworkError msg) = msg"
| "upload_error t (OtherError msg) = msg"
| "upload_error t NonError = ''Failed to upload '' @ type_name t"

text \<open>
  The body of the upload response: \<^verbatim>\<open>success\<close> and, under
  \<^verbatim>\<open>data.logo_url\<close> or \<^verbatim>\<open>data.favicon_url\<close>, the URL of the stored
  file. Only a response that carries the URL whenever its success flag is set is a value
  of this type.
\<close>

record upload_response =
  upload_ok :: bool
  uploaded_url :: string

definition handleFileUpload ::
  "(settings_body request \<Rightarrow> thrown + upload_response) \<Rightarrow> File \<Rightarrow> UploadType \<Rightarrow> settings_page
     \<Rightarrow> settings_page \<times> settings_body request effect list" where
  "handleFileUpload net f t st =
     (if file_type f \<notin> set validTypes then
        (st\<lparr>error := ''Invalid file type. Please upload: ''
                 @ join '', '' (map after_slash validTypes)\<rparr>, [])
      else if file_size f > maxSize t then
        (st\<lparr>error := ''File size too large. Maximum ''
                 @ (if t = Logo then ''2MB'' else ''1MB'') @ '' allowed.''\<rparr>, [])
      else
        (let req = \<lparr>req_method = POST, req_url = ''/basic-settings/'' @ type_name t,
                    req_body = FormData (type_name t) f\<rparr>;
             st1 = (set_uploading t True st)\<lparr>error := []\<rparr>
         in case net req of
              Inr response \<Rightarrow>
                if upload_ok response then
                  (set_uploading t False
                     (st1\<lparr>settings := set_url t (uploaded_url response) (settings st1),
                          success_msg := (if t = Logo then ''Logo'' else ''Favicon'')
                                           @ '' uploaded successfully!''\<rparr>),
                   [HttpRequest req, SetTimeout ClearSuccess 3000])
                else (set_uploading t False st1, [HttpRequest req])
            | Inl err \<Rightarrow>
                (set_uploading t False (st1\<lparr>error := upload_error t err\<rparr>),
                 [HttpRequest req])))"

section \<open>Registration and login forms\<close>

subsection \<open>The email check\<close>

text \<open>
  Both forms test the email with the regular expression
  \<^verbatim>\<open>/^[^\s@]+@[^\s@]+\.[^\s@]+$/\<close>. With both anchors and no flag,
  \<^verbatim>\<open>test\<close> holds exactly when the whole string is in the language of the
  expression, which is decided here with derivatives.
\<close>

datatype cclass = NotSpaceOrAt | Literal char

fun cmatch :: "cclass \<Rightarrow> char \<Rightarrow> bool" where
  "cmatch NotSpaceOrAt c = (\<not> is_space c \<and> c \<noteq> CHR ''@'')"
| "cmatch (Literal d) c = (c = d)"

datatype regex = Empty | Eps | Atom cclass | Seq regex regex | Alt regex regex | Star regex

fun nullable :: "regex \<Rightarrow> bool" where
  "nullable Empty = False"
| "nullable Eps = True"
| "nullable (Atom a) = False"
| "nullable (Seq r s) = (nullable r \<and> nullable s)"
| "nullable (Alt r s) = (nullable r \<or> nullable s)"
| "nullable (Star r) = True"

fun deriv :: "char \<Rightarrow> regex \<Rightarrow> regex" where
  "deriv c Empty = Empty"
| "deriv c Eps = Empty"
| "deriv c (Atom a) = (if cmatch a c then Eps else Empty)"
| "deriv c (Seq r s) =
     (if nullable r then Alt (Seq (deriv c r) s) (deriv c s) else Seq (deriv c r) s)"
| "deriv c (Alt r s) = Alt (deriv c r) (deriv c s)"
| "deriv c (Star r) = Seq (deriv c r) (Star r)"

fun regex_test :: "regex \<Rightarrow> string \<Rightarrow> bool" where
  "regex_test r [] = nullable r"
| "regex_test r (c # cs) = regex_test (deriv c r) cs"

text \<open>
  The language of an expression, to say what the derivative test decides: \<open>conc\<close> is
  concatenation of languages and \<open>star\<close> is iteration.
\<close>

definition conc :: "string set \<Rightarrow> string set \<Rightarrow> string set" where
  "conc A B = {xs @ ys | xs ys. xs \<in> A \<and> ys \<in> B}"

inductive_set star :: "string set \<Rightarrow> string set" for A :: "string set" where
  star_Nil: "[] \<in> star A"
| star_step: "x \<in> A \<Longrightarrow> xs \<in> star A \<Longrightarrow> x @ xs \<in> star A"

fun lang :: "regex \<Rightarrow> string set" where
  "lang Empty = {}"
| "lang Eps = {[]}"
| "lang (Atom a) = {[c] | c. cmatch a c}"
| "lang (Seq r s) = conc (lang r) (lang s)"
| "lang (Alt r s) = lang r \<union> lang s"
| "lang (Star r) = star (lang r)"

definition Plus :: "regex \<Rightarrow> regex" where
  "Plus r = Seq r (Star r)"

definition emailRegex :: regex where
  "emailRegex =
     Seq (Plus (Atom NotSpaceOrAt))
       (Seq (Atom (Literal (CHR ''@'')))
         (Seq (Plus (Atom NotSpaceOrAt))
           (Seq (Atom (Literal (CHR ''.''))) (Plus (Atom NotSpaceOrAt)))))"

text \<open>A non-empty run of characters that are neither white space nor \<^verbatim>\<open>@\<close>.\<close>

definition email_part :: "string \<Rightarrow> bool" where
  "email_part w = (w \<noteq> [] \<and> (\<forall>c \<in> set w. \<not> is_space c \<and> c \<noteq> CHR ''@''))"

subsection \<open>Registration\<close>

text \<open>The \<^verbatim>\<open>formData\<close> state of \<^verbatim>\<open>SignUp\<close> (lines 12-18).\<close>

record RegFormData =
  name :: string
  email :: string
  password :: string
  confirmPassword :: string
  role :: string

record signup_page =
  formData :: RegFormData
  loading :: bool
  signup_error :: string
  signup_success :: string

definition initial_formData :: RegFormData where
  "initial_formData =
     \<lparr>name = [], email = [], password = [], confirmPassword = [], role = ''user''\<rparr>"

definition initial_signup :: signup_page where
  "initial_signup =
     \<lparr>formData = initial_formData, loading = False, signup_error = [], signup_success = []\<rparr>"

text \<open>
  \<^verbatim>\<open>handleChange\<close> (lines 30-37): the field named by the input's
  \<^verbatim>\<open>name\<close> attribute takes the input's value. A name that is no field of the
  form data adds a property that nothing reads.
\<close>

definition handleChange :: "string \<Rightarrow> string \<Rightarrow> signup_page \<Rightarrow> signup_page" where
  "handleChange key v st =
     (let fd = formData st;
          fd' =
            (if key = ''name'' then fd\<lparr>name := v\<rparr>
             else if key = ''email'' then fd\<lparr>email := v\<rparr>
             else if key = ''password'' then fd\<lparr>password := v\<rparr>
             else if key = ''confirmPassword'' then fd\<lparr>confirmPassword := v\<rparr>
             else if key = ''role'' then fd\<lparr>role := v\<rparr>
             else fd)
      in st\<lparr>formData := fd', signup_error := []\<rparr>)"

text \<open>
  The inputs that the form renders with \<^verbatim>\<open>onChange={handleChange}\<close>
  (lines 138-202), and their \<^verbatim>\<open>name\<close> attributes.
\<close>

datatype signup_input = NameInput | EmailInput | PasswordInput | ConfirmPasswordInput

fun input_name :: "signup_input \<Rightarrow> string" where
  "input_name NameInput = ''name''"
| "input_name EmailInput = ''email''"
| "input_name PasswordInput = ''password''"
| "input_name ConfirmPasswordInput = ''confirmPassword''"

record registration_body =
  body_name :: string
  body_email :: string
  body_password :: string
  body_role :: string

fun registration_error :: "thrown \<Rightarrow> string" where
  "registration_error (AxiosResponseError m) = or_else m ''Registration failed''"
| "registration_error (AxiosNetworkError msg) = ''Registration failed''"
| "registration_error (OtherError msg) = msg"
| "registration_error NonError = ''An unexpected error occurred''"

text \<open>\<^verbatim>\<open>handleRegistration\<close> (lines 40-111).\<close>

definition handleRegistration ::
  "(registration_body request \<Rightarrow> thrown + unit ApiResponse) \<Rightarrow> signup_page
     \<Rightarrow> signup_page \<times> registration_body request effect list" where
  "handleRegistration net st =
     (let fd = formData st in
      if name fd = [] \<or> email fd = [] \<or> password fd = [] then
        (st\<lparr>signup_error := ''All fields are required''\<rparr>, [])
      else if \<not> regex_test emailRegex (email fd) then
        (st\<lparr>signup_error := ''Please enter a valid email address''\<rparr>, [])
      else if length (password fd) < 6 then
        (st\<lparr>signup_error := ''Password must be at least 6 characters long''\<rparr>, [])
      else if password fd \<noteq> confirmPassword fd then
        (st\<lparr>signup_error := ''Passwords do not match''\<rparr>, [])
      else
        (let st1 = st\<lparr>loading := True, signup_error := [], signup_success := []\<rparr>;
             req = \<lparr>req_method = POST, req_url = ''/users/registration'',
                    req_body = \<lparr>body_name = name fd, body_email = email fd,
                                 body_password = password fd, body_role = role fd\<rparr>\<rparr>
         in case net req of
              Inr response \<Rightarrow>
                if success response then
                  (st1\<lparr>signup_success := ''Registration successful! Redirecting to login...'',
                       formData := initial_formData, loading := False\<rparr>,
                   [HttpRequest req, SetTimeout (RouterPush ''/'') 2000])
                else (st1\<lparr>loading := False\<rparr>, [HttpRequest req])
            | Inl err \<Rightarrow>
                (st1\<lparr>signup_error := registration_error err, loading := False\<rparr>,
                 [HttpRequest req])))"

text \<open>
  What a user can do with the registration form: type into one of its four inputs, or
  submit it (the network then answers in some way). \<open>run_signup\<close> is the page state
  after a sequence of such events.
\<close>

datatype signup_event =
    Change signup_input string
  | Submit "registration_body request \<Rightarrow> thrown + unit ApiResponse"

fun run_signup :: "signup_event list \<Rightarrow> signup_page \<Rightarrow> signup_page" where
  "run_signup [] st = st"
| "run_signup (Change i v # evs) st = run_signup evs (handleChange (input_name i) v st)"
| "run_signup (Submit net # evs) st = run_signup evs (fst (handleRegistration net st))"

subsection \<open>Login\<close>

record LoginFormData =
  login_email :: string
  login_password :: string

record signin_page =
  login_form :: LoginFormData
  login_loading :: bool
  login_error :: string
  login_success :: string

text \<open>The user record of a session (\<^verbatim>\<open>interface User\<close> of the site header).\<close>

record User =
  user_id :: int
  user_name :: string
  user_email :: string
  user_role :: string

text \<open>
  The body of the login response: \<^verbatim>\<open>success\<close>, \<^verbatim>\<open>token\<close> and
  \<^verbatim>\<open>user\<close>; the last two may be absent.
\<close>

record login_response =
  login_ok :: bool
  token :: "string option"
  user :: "User option"

record login_body =
  body_login_email :: string
  body_login_password :: string

text \<open>
  The client-local storage and the default headers of the shared HTTP client
  (\<^verbatim>\<open>axiosInstance.defaults.headers.common\<close>), both written by the login handler.
\<close>

record client_env =
  localStorage :: "string \<rightharpoonup> string"
  common_headers :: "string \<rightharpoonup> string"

text \<open>
  A value converted to a string by \<^verbatim>\<open>localStorage.setItem\<close> or by a template
  literal: an absent one reads \<^verbatim>\<open>undefined\<close>.
\<close>

definition to_string :: "string option \<Rightarrow> string" where
  "to_string v = (case v of None \<Rightarrow> ''undefined'' | Some s \<Rightarrow> s)"

fun login_error_of :: "thrown \<Rightarrow> string" where
  "login_error_of (AxiosResponseError (Some m)) = m"
| "login_error_of (AxiosResponseError None) = ''Login failed. Please try again.''"
| "login_error_of (AxiosNetworkError msg) =
     ''No response from server. Please check your connection.''"
| "login_error_of (OtherError msg) = ''An unexpected error occurred.''"
| "login_error_of NonError = ''An unexpected error occurred.''"

text \<open>
  \<^verbatim>\<open>handleLogin\<close> (lines 294-365). \<^verbatim>\<open>JSON.stringify\<close> on a user record
  is a parameter.
\<close>

definition handleLogin ::
  "(User \<Rightarrow> string) \<Rightarrow> (login_body request \<Rightarrow> thrown + login_response)
     \<Rightarrow> signin_page \<times> client_env
     \<Rightarrow> (signin_page \<times> client_env) \<times> login_body request effect list" where
  "handleLogin JSON_stringify net p =
     (let st = fst p; env = snd p; fd = login_form st in
      if login_email fd = [] \<or> login_password fd = [] then
        ((st\<lparr>login_error := ''Email and password are required''\<rparr>, env), [])
      else if \<not> regex_test emailRegex (login_email fd) then
        ((st\<lparr>login_error := ''Please enter a valid email address''\<rparr>, env), [])
      else
        (let st1 = st\<lparr>login_loading := True, login_error := [], login_success := []\<rparr>;
             req = \<lparr>req_method = POST, req_url = ''/users/login'',
                    req_body = \<lparr>body_login_email = login_email fd,
                                 body_login_password = login_password fd\<rparr>\<rparr>
         in case net req of
              Inr response \<Rightarrow>
                if login_ok response then
                  (let storage1 = (localStorage env)(''token'' \<mapsto> to_string (token response));
                       storage2 = storage1(''user'' \<mapsto>
                                    to_string (map_option JSON_stringify (user response)));
                       headers = (common_headers env)(''Authorization'' \<mapsto>
                                    ''Bearer '' @ to_string (token response))
                   in ((st1\<lparr>login_success := ''Login successful! Redirecting...'',
                             login_form := \<lparr>login_email = [], login_password = []\<rparr>,
                             login_loading := False\<rparr>,
                        env\<lparr>localStorage := storage2, common_headers := headers\<rparr>),
                       [HttpRequest req, SetTimeout (RouterPush ''/'') 1500]))
                else ((st1\<lparr>login_loading := False\<rparr>, env), [HttpRequest req])
            | Inl err \<Rightarrow>
                ((st1\<lparr>login_error := login_error_of err, login_loading := False\<rparr>, env),
                 [HttpRequest req])))"

text \<open>
  The login check of the site header on mount: with a non-empty stored token and a
  non-empty stored user it shows the parsed user as logged in. \<^verbatim>\<open>JSON.parse\<close> is
  a parameter.
\<close>

definition header_login_check :: "(string \<Rightarrow> User) \<Rightarrow> client_env \<Rightarrow> User option" where
  "header_login_check JSON_parse env =
     (case (localStorage env ''token'', localStorage env ''user'') of
        (Some tk, Some userData) \<Rightarrow>
          if tk \<noteq> [] \<and> userData \<noteq> [] then Some (JSON_parse userData) else None
      | _ \<Rightarrow> None)"

subsection \<open>The shared HTTP client\<close>

text \<open>
  Modelled from the spec: the shared HTTP client
  (\<^verbatim>\<open>SharedItems/AxiosInstance/AxiosInstance\<close>, imported by every component and not
  among the source files). The spec describes it as "an HTTP client configured with a base
  address and bearer-token header, used for all requests; this code supplies only the
  request path, body, and (for uploads) a multipart encoding". A request sent through it
  goes to the base address followed by the path, and carries the client's default headers.
\<close>

record 'b wire_request =
  wire_method :: http_method
  wire_url :: string
  wire_headers :: "string \<rightharpoonup> string"
  wire_body :: 'b

definition client_send :: "string \<Rightarrow> client_env \<Rightarrow> 'b request \<Rightarrow> 'b wire_request" where
  "client_send baseURL env r =
     \<lparr>wire_method = req_method r, wire_url = baseURL @ req_url r,
      wire_headers = common_headers env, wire_body = req_body r\<rparr>"

section \<open>Theorems\<close>

subsection \<open>The loops over the static lists compute the recursive functions\<close>




lemma strip_ids_append: "strip_ids S (xs @ ys) = strip_ids S xs @ strip_ids S ys"
  by (induction S xs rule: strip_ids.induct) auto






























subsection \<open>The paste handler\<close>










subsection \<open>The link dialog\<close>

text \<open>
  What the validation of the link dialog does reach: a link URL that is empty after
  trimming, that \<^verbatim>\<open>new URL\<close> does not parse, or whose protocol does not start
  with \<^verbatim>\<open>http\<close> is answered by one alert and nothing else, a link is inserted
  only for a URL that parses with a protocol starting with \<^verbatim>\<open>http\<close>, and no
  input makes the handler throw.
\<close>

lemma handleAddLink_prefix_validation:
  "((trim (linkUrl st) = [] \<or> (\<forall>u. newURL (linkUrl st) \<noteq> Inr u)
      \<or> (\<exists>u. newURL (linkUrl st) = Inr u \<and> \<not> startsWith (protocol u) ''http''))
     \<longrightarrow> (\<exists>msg. handleAddLink newURL ed sel st = Inr (st, [Alert msg])))
   \<and> (\<forall>st' es. handleAddLink newURL ed sel st = Inr (st', es)
          \<and> filter is_link_insertion es \<noteq> []
        \<longrightarrow> trim (linkUrl st) \<noteq> []
            \<and> (\<exists>u. newURL (linkUrl st) = Inr u \<and> startsWith (protocol u) ''http''))
   \<and> (\<exists>r. handleAddLink newURL ed sel st = Inr r)"
proof (intro conjI impI allI)
  assume "trim (linkUrl st) = [] \<or> (\<forall>u. newURL (linkUrl st) \<noteq> Inr u)
      \<or> (\<exists>u. newURL (linkUrl st) = Inr u \<and> \<not> startsWith (protocol u) ''http'')"
  then show "\<exists>msg. handleAddLink newURL ed sel st = Inr (st, [Alert msg])"
    by (cases "newURL (linkUrl st)") (auto simp: handleAddLink_def validate_link_def)
next
  fix st' es
  assume a: "handleAddLink newURL ed sel st = Inr (st', es)
          \<and> filter is_link_insertion es \<noteq> []"
  show "trim (linkUrl st) \<noteq> []"
    using a by (auto simp: handleAddLink_def)
  show "\<exists>u. newURL (linkUrl st) = Inr u \<and> startsWith (protocol u) ''http''"
    using a
    by (cases "newURL (linkUrl st)")
       (auto simp: handleAddLink_def validate_link_def split: if_splits)
next
  show "\<exists>r. handleAddLink newURL ed sel st = Inr r"
    by (cases "newURL (linkUrl st)")
       (auto simp: handleAddLink_def validate_link_def Let_def split: option.splits)
qed

text \<open>
  C6 does not hold of the code. The test of line 167 is
  \<^verbatim>\<open>url.protocol.startsWith("http")\<close>, which every scheme that begins with
  \<^verbatim>\<open>http\<close> passes. For the input \<^verbatim>\<open>httpx://foo\<close>, which
  \<^verbatim>\<open>new URL\<close> parses with the protocol \<^verbatim>\<open>httpx:\<close>, the handler
  shows no alert and inserts the link, although the scheme is neither
  \<^verbatim>\<open>http\<close> nor \<^verbatim>\<open>https\<close>, the two that the handler's own alert
  and the placeholder of the input name.
\<close>

theorem handleAddLink_inserts_httpx_link:
  "handleAddLink (\<lambda>s. Inr \<lparr>protocol = ''httpx:''\<rparr>) True
     (Some \<lparr>sel_toString = [], rangeCount = 1, isCollapsed = True\<rparr>)
     \<lparr>showLinkInput = True, linkUrl = ''httpx://foo'', linkText = ''x''\<rparr>
   = Inr (\<lparr>showLinkInput = False, linkUrl = [], linkText = []\<rparr>,
          [Focus, ExecInsertHTML (link_markup ''httpx://foo'' ''x''), UpdateContent])"
  by (simp add: handleAddLink_def validate_link_def startsWith_def trim_def is_space_def)

subsection \<open>Settings form: submission\<close>

lemma requests_handleSubmit: "requests (snd (handleSubmit net st)) = [submit_request (settings st)]"
  by (cases "net (submit_request (settings st))") (simp_all add: handleSubmit_def Let_def)

text \<open>
  C3, as the code has it. A submission issues exactly one request. It is a PUT to
  \<^verbatim>\<open>/basic-settings/<id>\<close> when the record has an identifier other than 0, and a
  POST to \<^verbatim>\<open>/basic-settings\<close> when the record has no identifier or the
  identifier 0. The body is the record in both cases.
\<close>

theorem handleSubmit_create_or_update:
  "requests (snd (handleSubmit net st)) = [submit_request (settings st)]
   \<and> (id_num (settings st) = None \<or> id_num (settings st) = Some 0 \<longrightarrow>
        submit_request (settings st) =
          \<lparr>req_method = POST, req_url = ''/basic-settings'', req_body = JsonBody (settings st)\<rparr>)
   \<and> (\<forall>i. id_num (settings st) = Some i \<and> i \<noteq> 0 \<longrightarrow>
        submit_request (settings st) =
          \<lparr>req_method = PUT, req_url = ''/basic-settings/'' @ number_toString i,
           req_body = JsonBody (settings st)\<rparr>)"
  by (auto simp: requests_handleSubmit submit_request_def truthy_id_def)

theorem handleSubmit_create_or_update_witness:
  "requests (snd (handleSubmit (\<lambda>r. Inl NonError)
      \<lparr>settings = initial_settings\<lparr>id_num := Some 42\<rparr>, saving = False, error = [],
       success_msg = [], uploading_logo = False, uploading_favicon = False\<rparr>))
   = [\<lparr>req_method = PUT, req_url = ''/basic-settings/42'',
       req_body = JsonBody (initial_settings\<lparr>id_num := Some 42\<rparr>)\<rparr>]"
  using handleSubmit_create_or_update
    [of "\<lambda>r. Inl NonError"
        "\<lparr>settings = initial_settings\<lparr>id_num := Some 42\<rparr>, saving = False, error = [],
          success_msg = [], uploading_logo = False, uploading_favicon = False\<rparr>"]
  by (simp add: initial_settings_def number_toString_def digits.simps)

text \<open>
  C3 as stated promises an update request whenever the record has an identifier. The
  record with the identifier 0 has one, and gets the create request.
\<close>

theorem handleSubmit_identifier_zero_counterexample:
  "id_num (initial_settings\<lparr>id_num := Some 0\<rparr>) \<noteq> None
   \<and> req_method (submit_request (initial_settings\<lparr>id_num := Some 0\<rparr>)) = POST
   \<and> req_url (submit_request (initial_settings\<lparr>id_num := Some 0\<rparr>)) = ''/basic-settings''"
  by (simp add: submit_request_def truthy_id_def initial_settings_def)

text \<open>
  C9. The choice tests the identifier for truthiness: a record whose identifier is present
  and equal to 0 is submitted by a POST to the collection path, not by a PUT addressed to
  the identifier 0.
\<close>

theorem handleSubmit_zero_identifier_creates:
  assumes "id_num (settings st) = Some 0"
  shows "requests (snd (handleSubmit net st)) =
           [\<lparr>req_method = POST, req_url = ''/basic-settings'',
             req_body = JsonBody (settings st)\<rparr>]
         \<and> req_url (submit_request (settings st)) \<noteq> ''/basic-settings/'' @ number_toString 0"
  using assms by (simp add: requests_handleSubmit submit_request_def truthy_id_def)

theorem handleSubmit_zero_identifier_creates_witness:
  "map req_method (requests (snd (handleSubmit
      (\<lambda>r. Inr \<lparr>success = True, message = ''ok'', data = None\<rparr>)
      \<lparr>settings = initial_settings\<lparr>id_num := Some 0, site_name := ''News''\<rparr>,
       saving = False, error = [], success_msg = [], uploading_logo = False,
       uploading_favicon = False\<rparr>))) = [POST]"
  using handleSubmit_zero_identifier_creates
    [of "\<lparr>settings = initial_settings\<lparr>id_num := Some 0, site_name := ''News''\<rparr>,
          saving = False, error = [], success_msg = [], uploading_logo = False,
          uploading_favicon = False\<rparr>"
        "\<lambda>r. Inr \<lparr>success = True, message = ''ok'', data = None\<rparr>"]
  by (simp add: initial_settings_def)

text \<open>
  C7. When the submission fails, by a thrown value (no response, or a response with an
  error status) or by a response whose success flag is false, the settings record of the
  form after the handler is the record before it.
\<close>

theorem handleSubmit_failure_keeps_settings:
  assumes "(\<exists>e. net (submit_request (settings st)) = Inl e)
         \<or> (\<exists>r. net (submit_request (settings st)) = Inr r \<and> \<not> success r)"
  shows "settings (fst (handleSubmit net st)) = settings st"
  using assms by (auto simp: handleSubmit_def Let_def)

theorem handleSubmit_failure_keeps_settings_witness:
  "settings (fst (handleSubmit (\<lambda>r. Inl (AxiosNetworkError ''Network Error''))
      \<lparr>settings = initial_settings\<lparr>site_name := ''Daily News''\<rparr>, saving = False,
       error = [], success_msg = [], uploading_logo = False, uploading_favicon = False\<rparr>))
   = initial_settings\<lparr>site_name := ''Daily News''\<rparr>"
proof -
  have "\<exists>e. (\<lambda>r. Inl (AxiosNetworkError ''Network Error''))
          (submit_request (settings
            \<lparr>settings = initial_settings\<lparr>site_name := ''Daily News''\<rparr>, saving = False,
             error = [], success_msg = [], uploading_logo = False,
             uploading_favicon = False\<rparr>))
        = (Inl e :: thrown + BasicSettingsData ApiResponse)"
    by simp
  then show ?thesis
    using handleSubmit_failure_keeps_settings
      [of "\<lambda>r. Inl (AxiosNetworkError ''Network Error'')"
          "\<lparr>settings = initial_settings\<lparr>site_name := ''Daily News''\<rparr>, saving = False,
            error = [], success_msg = [], uploading_logo = False,
            uploading_favicon = False\<rparr>"]
    by simp
qed

subsection \<open>Settings form: file upload\<close>

text \<open>
  C4. A file whose type is not one of the seven valid types, and a file larger than the
  ceiling of its field (2 MiB for the logo, 1 MiB for the favicon), is rejected: the
  handler only sets a non-empty error message and issues no request.
\<close>

theorem handleFileUpload_rejects_before_request:
  "(file_type f \<notin> set validTypes \<or> file_size f > maxSize t \<longrightarrow>
      (\<exists>msg. msg \<noteq> [] \<and> handleFileUpload net f t st = (st\<lparr>error := msg\<rparr>, [])))
   \<and> validTypes = [''image/jpeg'', ''image/jpg'', ''image/png'', ''image/gif'',
        ''image/webp'', ''image/svg+xml'', ''image/x-icon'']
   \<and> maxSize Logo = 2097152 \<and> maxSize Favicon = 1048576"
  by (auto simp: handleFileUpload_def maxSize_def validTypes_def)

theorem handleFileUpload_rejects_before_request_witness:
  "(\<exists>msg. msg \<noteq> [] \<and>
      handleFileUpload (\<lambda>r. Inl NonError) \<lparr>file_type = ''image/png'', file_size = 1048577\<rparr>
        Favicon
        \<lparr>settings = initial_settings, saving = False, error = [], success_msg = [],
         uploading_logo = False, uploading_favicon = False\<rparr>
      = (\<lparr>settings = initial_settings, saving = False, error = [], success_msg = [],
          uploading_logo = False, uploading_favicon = False\<rparr>\<lparr>error := msg\<rparr>, []))"
proof -
  have "file_size \<lparr>file_type = ''image/png'', file_size = 1048577\<rparr> > maxSize Favicon"
    by (simp add: maxSize_def)
  then show ?thesis
    using handleFileUpload_rejects_before_request
      [of "\<lparr>file_type = ''image/png'', file_size = 1048577\<rparr>" Favicon
          "\<lambda>r. Inl NonError"
          "\<lparr>settings = initial_settings, saving = False, error = [], success_msg = [],
            uploading_logo = False, uploading_favicon = False\<rparr>"]
    by blast
qed

subsection \<open>The email check decides the shape \<open>part@part.part\<close>\<close>

lemma nullable_lang: "nullable r = ([] \<in> lang r)"
  by (induction r) (auto simp: conc_def intro: star_Nil)

lemma Cons_in_conc:
  "(c # w \<in> conc A B) =
     (([] \<in> A \<and> c # w \<in> B) \<or> (\<exists>x y. w = x @ y \<and> c # x \<in> A \<and> y \<in> B))"
proof
  assume "c # w \<in> conc A B"
  then obtain xs ys where s: "c # w = xs @ ys" "xs \<in> A" "ys \<in> B"
    by (auto simp: conc_def)
  show "([] \<in> A \<and> c # w \<in> B) \<or> (\<exists>x y. w = x @ y \<and> c # x \<in> A \<and> y \<in> B)"
  proof (cases xs)
    case Nil
    then show ?thesis using s by simp
  next
    case (Cons d xs')
    then show ?thesis using s by auto
  qed
next
  assume "([] \<in> A \<and> c # w \<in> B) \<or> (\<exists>x y. w = x @ y \<and> c # x \<in> A \<and> y \<in> B)"
  then show "c # w \<in> conc A B"
  proof
    assume "[] \<in> A \<and> c # w \<in> B"
    then have "[] @ (c # w) \<in> conc A B" unfolding conc_def by blast
    then show ?thesis by simp
  next
    assume "\<exists>x y. w = x @ y \<and> c # x \<in> A \<and> y \<in> B"
    then obtain x y where "w = x @ y" "c # x \<in> A" "y \<in> B" by blast
    then have "(c # x) @ y \<in> conc A B" unfolding conc_def by blast
    then show ?thesis using \<open>w = x @ y\<close> by simp
  qed
qed

lemma star_Cons_split:
  assumes "u \<in> star A" and "u = c # w"
  shows "\<exists>x y. w = x @ y \<and> c # x \<in> A \<and> y \<in> star A"
  using assms
proof (induction arbitrary: w rule: star.induct)
  case star_Nil
  then show ?case by simp
next
  case (star_step x xs)
  show ?case
  proof (cases x)
    case Nil
    then show ?thesis using star_step by simp
  next
    case (Cons d x')
    then have "w = x' @ xs" "c # x' \<in> A" using star_step.prems star_step.hyps(1) by auto
    then show ?thesis using star_step.hyps(2) by blast
  qed
qed

lemma Cons_in_star:
  "(c # w \<in> star A) = (\<exists>x y. w = x @ y \<and> c # x \<in> A \<and> y \<in> star A)"
proof
  assume "c # w \<in> star A"
  then show "\<exists>x y. w = x @ y \<and> c # x \<in> A \<and> y \<in> star A"
    by (rule star_Cons_split) simp
next
  assume "\<exists>x y. w = x @ y \<and> c # x \<in> A \<and> y \<in> star A"
  then obtain x y where "w = x @ y" "c # x \<in> A" "y \<in> star A" by blast
  then have "(c # x) @ y \<in> star A" by (intro star_step)
  then show "c # w \<in> star A" using \<open>w = x @ y\<close> by simp
qed

lemma deriv_lang: "(w \<in> lang (deriv c r)) = (c # w \<in> lang r)"
proof (induction r arbitrary: w)
  case (Seq r s)
  then show ?case
    by (auto simp: Cons_in_conc nullable_lang) (auto simp: conc_def)
next
  case (Star r)
  then show ?case by (auto simp: Cons_in_star) (auto simp: conc_def)
qed auto

lemma regex_test_lang: "regex_test r s = (s \<in> lang r)"
  by (induction s arbitrary: r) (simp_all add: nullable_lang deriv_lang)

lemma star_singletons: "star {[c] | c. P c} = {w. \<forall>c \<in> set w. P c}"
proof (intro set_eqI iffI)
  fix w assume "w \<in> star {[c] | c. P c}"
  then show "w \<in> {w. \<forall>c \<in> set w. P c}" by (induction rule: star.induct) auto
next
  fix w assume "w \<in> {w. \<forall>c \<in> set w. P c}"
  then have "\<forall>c \<in> set w. P c" by simp
  then show "w \<in> star {[c] | c. P c}"
  proof (induction w)
    case Nil
    show ?case by (rule star_Nil)
  next
    case (Cons a w)
    then have "[a] \<in> {[c] | c. P c}" "w \<in> star {[c] | c. P c}" by auto
    then have "[a] @ w \<in> star {[c] | c. P c}" by (rule star_step)
    then show ?case by simp
  qed
qed

lemma conc_iff: "(s \<in> conc A B) = (\<exists>x y. s = x @ y \<and> x \<in> A \<and> y \<in> B)"
  by (auto simp: conc_def)

lemma lang_Plus_NotSpaceOrAt: "(w \<in> lang (Plus (Atom NotSpaceOrAt))) = email_part w"
proof
  assume "w \<in> lang (Plus (Atom NotSpaceOrAt))"
  then have "w \<in> conc {[c] | c. cmatch NotSpaceOrAt c} (star {[c] | c. cmatch NotSpaceOrAt c})"
    by (simp add: Plus_def)
  then obtain x y where w: "w = x @ y" "x \<in> {[c] | c. cmatch NotSpaceOrAt c}"
      "y \<in> star {[c] | c. cmatch NotSpaceOrAt c}"
    unfolding conc_iff by blast
  from w(3) have y: "\<forall>c \<in> set y. cmatch NotSpaceOrAt c" unfolding star_singletons by simp
  from w(2) obtain c where x: "x = [c]" "cmatch NotSpaceOrAt c" by blast
  show "email_part w" unfolding email_part_def w(1) x(1) using x(2) y by simp
next
  assume e: "email_part w"
  then obtain c y where w: "w = c # y" unfolding email_part_def by (cases w) simp_all
  have c: "cmatch NotSpaceOrAt c" and y: "\<forall>d \<in> set y. cmatch NotSpaceOrAt d"
    using e unfolding email_part_def w by simp_all
  have "[c] \<in> {[c] | c. cmatch NotSpaceOrAt c}" using c by blast
  moreover have "y \<in> star {[c] | c. cmatch NotSpaceOrAt c}"
    unfolding star_singletons using y by simp
  ultimately have "[c] @ y \<in> conc {[c] | c. cmatch NotSpaceOrAt c}
      (star {[c] | c. cmatch NotSpaceOrAt c})"
    unfolding conc_iff by blast
  then show "w \<in> lang (Plus (Atom NotSpaceOrAt))" unfolding w by (simp add: Plus_def)
qed

lemma lang_Literal: "(w \<in> lang (Atom (Literal d))) = (w = [d])"
  by auto

lemma emailRegex_shape:
  "regex_test emailRegex s =
     (\<exists>a b c. s = a @ ''@'' @ b @ ''.'' @ c \<and> email_part a \<and> email_part b \<and> email_part c)"
proof -
  have "regex_test emailRegex s =
     (\<exists>a r1. s = a @ r1 \<and> email_part a \<and>
        (\<exists>x r2. r1 = x @ r2 \<and> x = ''@'' \<and>
           (\<exists>b r3. r2 = b @ r3 \<and> email_part b \<and>
              (\<exists>y c. r3 = y @ c \<and> y = ''.'' \<and> email_part c))))"
    unfolding regex_test_lang emailRegex_def lang.simps(4) conc_iff
      lang_Plus_NotSpaceOrAt lang_Literal ..
  also have "\<dots> =
     (\<exists>a b c. s = a @ ''@'' @ b @ ''.'' @ c \<and> email_part a \<and> email_part b \<and> email_part c)"
    by blast
  finally show ?thesis .
qed

lemma emailRegex_needs_at: "CHR ''@'' \<notin> set s \<Longrightarrow> \<not> regex_test emailRegex s"
  by (auto simp: emailRegex_shape)

lemma emailRegex_needs_dot_after_at:
  "CHR ''.'' \<notin> set (dropWhile (\<lambda>c. c \<noteq> CHR ''@'') s) \<Longrightarrow> \<not> regex_test emailRegex s"
proof
  assume n: "CHR ''.'' \<notin> set (dropWhile (\<lambda>c. c \<noteq> CHR ''@'') s)"
    and "regex_test emailRegex s"
  then obtain a b c where s: "s = a @ ''@'' @ b @ ''.'' @ c" and a: "email_part a"
    unfolding emailRegex_shape by blast
  have "dropWhile (\<lambda>c. c \<noteq> CHR ''@'') s = ''@'' @ b @ ''.'' @ c"
    unfolding s using a by (simp add: email_part_def dropWhile_append)
  then show False using n by simp
qed

subsection \<open>Registration and login: validation before any request\<close>

text \<open>
  C5. A registration form state that fails a check (name, email or password empty, email
  not matching the expression, password shorter than 6 characters, confirmation different
  from the password) makes the handler set a non-empty error message and issue nothing;
  the same holds for a login form state with an empty field or an email that does not
  match. Each handler issues a request only when all its checks pass, and then exactly one.
  The email check fails for every string without \<^verbatim>\<open>@\<close> and for every string
  without a dot after its first \<^verbatim>\<open>@\<close>.
\<close>

theorem validation_precedes_requests:
  "((name (formData st) = [] \<or> email (formData st) = [] \<or> password (formData st) = []
       \<or> \<not> regex_test emailRegex (email (formData st))
       \<or> length (password (formData st)) < 6
       \<or> password (formData st) \<noteq> confirmPassword (formData st))
      \<longrightarrow> snd (handleRegistration net st) = []
          \<and> signup_error (fst (handleRegistration net st)) \<noteq> [])
   \<and> (requests (snd (handleRegistration net st)) \<noteq> []
      \<longrightarrow> name (formData st) \<noteq> [] \<and> email (formData st) \<noteq> [] \<and> password (formData st) \<noteq> []
          \<and> regex_test emailRegex (email (formData st))
          \<and> 6 \<le> length (password (formData st))
          \<and> password (formData st) = confirmPassword (formData st)
          \<and> length (requests (snd (handleRegistration net st))) = 1)
   \<and> ((login_email (login_form (fst p)) = [] \<or> login_password (login_form (fst p)) = []
       \<or> \<not> regex_test emailRegex (login_email (login_form (fst p))))
      \<longrightarrow> snd (handleLogin js lnet p) = []
          \<and> login_error (fst (fst (handleLogin js lnet p))) \<noteq> [])
   \<and> (requests (snd (handleLogin js lnet p)) \<noteq> []
      \<longrightarrow> login_email (login_form (fst p)) \<noteq> [] \<and> login_password (login_form (fst p)) \<noteq> []
          \<and> regex_test emailRegex (login_email (login_form (fst p)))
          \<and> length (requests (snd (handleLogin js lnet p))) = 1)
   \<and> (CHR ''@'' \<notin> set e \<or> CHR ''.'' \<notin> set (dropWhile (\<lambda>c. c \<noteq> CHR ''@'') e)
      \<longrightarrow> \<not> regex_test emailRegex e)"
proof (intro conjI)
  show "CHR ''@'' \<notin> set e \<or> CHR ''.'' \<notin> set (dropWhile (\<lambda>c. c \<noteq> CHR ''@'') e)
      \<longrightarrow> \<not> regex_test emailRegex e"
    using emailRegex_needs_at [of e] emailRegex_needs_dot_after_at [of e] by blast
  show "(name (formData st) = [] \<or> email (formData st) = [] \<or> password (formData st) = []
       \<or> \<not> regex_test emailRegex (email (formData st))
       \<or> length (password (formData st)) < 6
       \<or> password (formData st) \<noteq> confirmPassword (formData st))
      \<longrightarrow> snd (handleRegistration net st) = []
          \<and> signup_error (fst (handleRegistration net st)) \<noteq> []"
    by (auto simp: handleRegistration_def Let_def)
  show "requests (snd (handleRegistration net st)) \<noteq> []
      \<longrightarrow> name (formData st) \<noteq> [] \<and> email (formData st) \<noteq> [] \<and> password (formData st) \<noteq> []
          \<and> regex_test emailRegex (email (formData st))
          \<and> 6 \<le> length (password (formData st))
          \<and> password (formData st) = confirmPassword (formData st)
          \<and> length (requests (snd (handleRegistration net st))) = 1"
    by (auto simp: handleRegistration_def Let_def split: if_splits sum.splits)
  show "(login_email (login_form (fst p)) = [] \<or> login_password (login_form (fst p)) = []
       \<or> \<not> regex_test emailRegex (login_email (login_form (fst p))))
      \<longrightarrow> snd (handleLogin js lnet p) = []
          \<and> login_error (fst (fst (handleLogin js lnet p))) \<noteq> []"
    by (auto simp: handleLogin_def Let_def)
  show "requests (snd (handleLogin js lnet p)) \<noteq> []
      \<longrightarrow> login_email (login_form (fst p)) \<noteq> [] \<and> login_password (login_form (fst p)) \<noteq> []
          \<and> regex_test emailRegex (login_email (login_form (fst p)))
          \<and> length (requests (snd (handleLogin js lnet p))) = 1"
    by (auto simp: handleLogin_def Let_def split: if_splits sum.splits)
qed

text \<open>
  The scenario of the spec: the login form with the email \<^verbatim>\<open>not-an-email\<close> gets an
  error message and no request.
\<close>

theorem validation_precedes_requests_witness:
  "snd (handleLogin (\<lambda>u. user_name u) (\<lambda>r. Inl NonError)
         (\<lparr>login_form = \<lparr>login_email = ''not-an-email'', login_password = ''secret''\<rparr>,
           login_loading = False, login_error = [], login_success = []\<rparr>,
          \<lparr>localStorage = Map.empty, common_headers = Map.empty\<rparr>)) = []
   \<and> login_error (fst (fst (handleLogin (\<lambda>u. user_name u) (\<lambda>r. Inl NonError)
         (\<lparr>login_form = \<lparr>login_email = ''not-an-email'', login_password = ''secret''\<rparr>,
           login_loading = False, login_error = [], login_success = []\<rparr>,
          \<lparr>localStorage = Map.empty, common_headers = Map.empty\<rparr>)))) \<noteq> []"
proof -
  have "\<not> regex_test emailRegex ''not-an-email''"
    by (simp add: emailRegex_def Plus_def is_space_def)
  then show ?thesis
    using validation_precedes_requests
      [of initial_signup "\<lambda>r. Inl NonError"
          "(\<lparr>login_form = \<lparr>login_email = ''not-an-email'', login_password = ''secret''\<rparr>,
             login_loading = False, login_error = [], login_success = []\<rparr>,
            \<lparr>localStorage = Map.empty, common_headers = Map.empty\<rparr>)"
          "\<lambda>u. user_name u" "\<lambda>r. Inl NonError"]
    by simp
qed

subsection \<open>Registration: the role of the request\<close>

lemma handleChange_role:
  "role (formData (handleChange (input_name i) v st)) = role (formData st)"
  by (cases i) (simp_all add: handleChange_def Let_def)

lemma handleRegistration_role:
  "role (formData st) = ''user'' \<Longrightarrow>
   role (formData (fst (handleRegistration net st))) = ''user''"
  by (auto simp: handleRegistration_def Let_def initial_formData_def
           split: if_splits sum.splits)

lemma run_signup_role:
  "role (formData st) = ''user'' \<Longrightarrow> role (formData (run_signup evs st)) = ''user''"
proof (induction evs st rule: run_signup.induct)
  case (1 st)
  then show ?case by simp
next
  case (2 i v evs st)
  then show ?case by (simp add: handleChange_role)
next
  case (3 net evs st)
  then show ?case by (simp add: handleRegistration_role)
qed

lemma handleRegistration_body_role:
  "list_all (\<lambda>r. body_role (req_body r) = role (formData st))
     (requests (snd (handleRegistration net st)))"
  by (auto simp: handleRegistration_def Let_def split: if_splits sum.splits)

text \<open>
  C10. Whatever the user has typed into the four inputs and however often the form has
  been submitted before, every registration request carries the role \<^verbatim>\<open>user\<close>;
  and when the checks pass, the one request that is issued is the POST to
  \<^verbatim>\<open>/users/registration\<close> with the typed name, email and password and that role.
\<close>

theorem registration_request_role_is_user:
  "list_all (\<lambda>r. body_role (req_body r) = ''user'')
     (requests (snd (handleRegistration net (run_signup evs initial_signup))))
   \<and> (name (formData (run_signup evs initial_signup)) \<noteq> []
       \<and> email (formData (run_signup evs initial_signup)) \<noteq> []
       \<and> password (formData (run_signup evs initial_signup)) \<noteq> []
       \<and> regex_test emailRegex (email (formData (run_signup evs initial_signup)))
       \<and> 6 \<le> length (password (formData (run_signup evs initial_signup)))
       \<and> password (formData (run_signup evs initial_signup))
           = confirmPassword (formData (run_signup evs initial_signup))
      \<longrightarrow> requests (snd (handleRegistration net (run_signup evs initial_signup))) =
            [\<lparr>req_method = POST, req_url = ''/users/registration'',
              req_body =
                \<lparr>body_name = name (formData (run_signup evs initial_signup)),
                 body_email = email (formData (run_signup evs initial_signup)),
                 body_password = password (formData (run_signup evs initial_signup)),
                 body_role = ''user''\<rparr>\<rparr>])"
proof -
  have r: "role (formData (run_signup evs initial_signup)) = ''user''"
    by (rule run_signup_role) (simp add: initial_signup_def initial_formData_def)
  show ?thesis
  proof (intro conjI impI)
    show "list_all (\<lambda>r. body_role (req_body r) = ''user'')
       (requests (snd (handleRegistration net (run_signup evs initial_signup))))"
      using handleRegistration_body_role [of "run_signup evs initial_signup" net] r by simp
  next
    assume "name (formData (run_signup evs initial_signup)) \<noteq> []
       \<and> email (formData (run_signup evs initial_signup)) \<noteq> []
       \<and> password (formData (run_signup evs initial_signup)) \<noteq> []
       \<and> regex_test emailRegex (email (formData (run_signup evs initial_signup)))
       \<and> 6 \<le> length (password (formData (run_signup evs initial_signup)))
       \<and> password (formData (run_signup evs initial_signup))
           = confirmPassword (formData (run_signup evs initial_signup))"
    then show "requests (snd (handleRegistration net (run_signup evs initial_signup))) =
            [\<lparr>req_method = POST, req_url = ''/users/registration'',
              req_body =
                \<lparr>body_name = name (formData (run_signup evs initial_signup)),
                 body_email = email (formData (run_signup evs initial_signup)),
                 body_password = password (formData (run_signup evs initial_signup)),
                 body_role = ''user''\<rparr>\<rparr>]"
      using r by (auto simp: handleRegistration_def Let_def split: sum.splits)
  qed
qed

theorem registration_request_role_is_user_witness:
  "requests (snd (handleRegistration (\<lambda>r. Inl NonError)
     (run_signup
        [Change NameInput ''Ann'', Change EmailInput ''ann@example.org'',
         Change PasswordInput ''secret1'', Change ConfirmPasswordInput ''secret1'']
        initial_signup)))
   = [\<lparr>req_method = POST, req_url = ''/users/registration'',
       req_body = \<lparr>body_name = ''Ann'', body_email = ''ann@example.org'',
                    body_password = ''secret1'', body_role = ''user''\<rparr>\<rparr>]"
proof -
  have e: "regex_test emailRegex ''ann@example.org''"
    by (simp add: emailRegex_def Plus_def is_space_def)
  have f: "formData (run_signup
        [Change NameInput ''Ann'', Change EmailInput ''ann@example.org'',
         Change PasswordInput ''secret1'', Change ConfirmPasswordInput ''secret1'']
        initial_signup)
      = \<lparr>name = ''Ann'', email = ''ann@example.org'', password = ''secret1'',
         confirmPassword = ''secret1'', role = ''user''\<rparr>"
    by (simp add: handleChange_def initial_signup_def initial_formData_def)
  show ?thesis
    using registration_request_role_is_user
      [of "\<lambda>r. Inl NonError"
          "[Change NameInput ''Ann'', Change EmailInput ''ann@example.org'',
            Change PasswordInput ''secret1'', Change ConfirmPasswordInput ''secret1'']"]
    unfolding f using e by simp
qed

subsection \<open>Login: the persisted session\<close>

text \<open>
  C2. When the login form passes its checks and the response has the success flag set, a
  token and a user record, then after the handler the storage holds that token under
  \<^verbatim>\<open>token\<close> and the serialised user record under \<^verbatim>\<open>user\<close>, every
  request sent through the shared client from then on carries the header
  \<^verbatim>\<open>Authorization: Bearer <token>\<close>, and the site header, reading the storage back,
  shows exactly that user record (for a token and a serialisation that are not empty, and
  a \<^verbatim>\<open>JSON.parse\<close> that inverts \<^verbatim>\<open>JSON.stringify\<close> on the record).
\<close>

theorem handleLogin_persists_session:
  assumes "login_email (login_form st) \<noteq> []" and "login_password (login_form st) \<noteq> []"
    and "regex_test emailRegex (login_email (login_form st))"
    and "net \<lparr>req_method = POST, req_url = ''/users/login'',
               req_body = \<lparr>body_login_email = login_email (login_form st),
                            body_login_password = login_password (login_form st)\<rparr>\<rparr>
           = Inr \<lparr>login_ok = True, token = Some tk, user = Some u\<rparr>"
  shows "localStorage (snd (fst (handleLogin JSON_stringify net (st, env)))) ''user''
           = Some (JSON_stringify u)
       \<and> localStorage (snd (fst (handleLogin JSON_stringify net (st, env)))) ''token''
           = Some tk
       \<and> wire_headers (client_send baseURL
            (snd (fst (handleLogin JSON_stringify net (st, env)))) r) ''Authorization''
           = Some (''Bearer '' @ tk)
       \<and> (tk \<noteq> [] \<and> JSON_stringify u \<noteq> [] \<and> JSON_parse (JSON_stringify u) = u
            \<longrightarrow> header_login_check JSON_parse
                  (snd (fst (handleLogin JSON_stringify net (st, env)))) = Some u)"
  using assms
  by (simp add: handleLogin_def Let_def to_string_def client_send_def header_login_check_def)

theorem handleLogin_persists_session_witness:
  "localStorage (snd (fst (handleLogin (\<lambda>u. user_name u)
       (\<lambda>r. Inr \<lparr>login_ok = True, token = Some ''tok123'',
                 user = Some \<lparr>user_id = 7, user_name = ''Ann'',
                              user_email = ''ann@example.org'', user_role = ''user''\<rparr>\<rparr>)
       (\<lparr>login_form = \<lparr>login_email = ''ann@example.org'', login_password = ''secret1''\<rparr>,
         login_loading = False, login_error = [], login_success = []\<rparr>,
        \<lparr>localStorage = Map.empty, common_headers = Map.empty\<rparr>)))) ''token''
   = Some ''tok123''
   \<and> wire_headers (client_send ''http://localhost:5000/api''
        (snd (fst (handleLogin (\<lambda>u. user_name u)
          (\<lambda>r. Inr \<lparr>login_ok = True, token = Some ''tok123'',
                 user = Some \<lparr>user_id = 7, user_name = ''Ann'',
                              user_email = ''ann@example.org'', user_role = ''user''\<rparr>\<rparr>)
          (\<lparr>login_form = \<lparr>login_email = ''ann@example.org'', login_password = ''secret1''\<rparr>,
            login_loading = False, login_error = [], login_success = []\<rparr>,
           \<lparr>localStorage = Map.empty, common_headers = Map.empty\<rparr>))))
        \<lparr>req_method = GET, req_url = ''/basic-settings'', req_body = ()\<rparr>) ''Authorization''
   = Some ''Bearer tok123''"
proof -
  have e: "regex_test emailRegex ''ann@example.org''"
    by (simp add: emailRegex_def Plus_def is_space_def)
  show ?thesis
    using handleLogin_persists_session
      [of "\<lparr>login_form = \<lparr>login_email = ''ann@example.org'', login_password = ''secret1''\<rparr>,
            login_loading = False, login_error = [], login_success = []\<rparr>"
          "\<lambda>r. Inr \<lparr>login_ok = True, token = Some ''tok123'',
                 user = Some \<lparr>user_id = 7, user_name = ''Ann'',
                              user_email = ''ann@example.org'', user_role = ''user''\<rparr>\<rparr>"
          "''tok123''"
          "\<lparr>user_id = 7, user_name = ''Ann'', user_email = ''ann@example.org'',
            user_role = ''user''\<rparr>"
          "\<lambda>u. user_name u"
          "\<lparr>localStorage = Map.empty, common_headers = Map.empty\<rparr>"
          "''http://localhost:5000/api''"
          "\<lparr>req_method = GET, req_url = ''/basic-settings'', req_body = ()\<rparr>"
          "\<lambda>s. \<lparr>user_id = 7, user_name = s, user_email = ''ann@example.org'',
            user_role = ''user''\<rparr>"]
    using e by simp
qed


end
